theory Spec2Isabelle
  imports Main "HOL-Library.Char_ord" "HOL-Library.List_Lexorder"
begin

section \<open>Python string and path primitives used by the handler\<close>

text \<open>
  The request path of \<^verbatim>\<open>http.server\<close> is the request line decoded as ISO-8859-1, so
  every character of it is one byte: the HOL type \<open>string\<close> (lists of 8-bit characters)
  is exactly the carrier.  The functions of this section follow CPython's
  \<^verbatim>\<open>str.split\<close>, \<^verbatim>\<open>str.rfind\<close>, \<^verbatim>\<open>posixpath.basename\<close>, \<^verbatim>\<open>posixpath.join\<close> and
  \<^verbatim>\<open>genericpath._splitext\<close> (with \<open>sep = '/'\<close>, no \<open>altsep\<close>, \<open>extsep = '.'\<close>).
\<close>

text \<open>\<^verbatim>\<open>s.split(c)\<close> for a one-character separator: never the empty list.\<close>

fun py_split :: "char \<Rightarrow> string \<Rightarrow> string list" where
  "py_split c [] = [[]]"
| "py_split c (x # xs) =
     (if x = c then [] # py_split c xs
      else (case py_split c xs of
              [] \<Rightarrow> [[x]]
            | w # ws \<Rightarrow> (x # w) # ws))"

text \<open>\<^verbatim>\<open>s.rfind(c)\<close>: the index of the last occurrence of \<open>c\<close>, or \<open>-1\<close>.\<close>

fun rfind :: "char \<Rightarrow> string \<Rightarrow> int" where
  "rfind c [] = - 1"
| "rfind c (x # xs) =
     (let r = rfind c xs
      in if 0 \<le> r then r + 1 else if x = c then 0 else - 1)"

text \<open>
  \<^verbatim>\<open>posixpath.basename\<close>: \<^verbatim>\<open>i = p.rfind('/') + 1; return p[i:]\<close>.  The index is never
  negative, so the slice is \<open>drop\<close>.
\<close>

definition basename :: "string \<Rightarrow> string" where
  "basename p = (let i = rfind CHR ''/'' p + 1 in drop (nat i) p)"

text \<open>
  The \<^verbatim>\<open>while\<close> loop of \<^verbatim>\<open>_splitext\<close> that skips leading dots: it returns the split at
  \<open>dotIndex\<close> as soon as a character other than the dot is met before \<open>dotIndex\<close>, and
  falls through to \<^verbatim>\<open>return p, p[:0]\<close> otherwise.
\<close>

function splitext_loop :: "string \<Rightarrow> nat \<Rightarrow> nat \<Rightarrow> string \<times> string" where
  "splitext_loop p dotIndex filenameIndex =
     (if filenameIndex < dotIndex then
        (if take 1 (drop filenameIndex p) \<noteq> ''.''
         then (take dotIndex p, drop dotIndex p)
         else splitext_loop p dotIndex (filenameIndex + 1))
      else (p, ''''))"
  by pat_completeness auto
termination
  by (relation "measure (\<lambda>(p, dotIndex, filenameIndex). dotIndex - filenameIndex)") auto

declare splitext_loop.simps [simp del]

definition splitext :: "string \<Rightarrow> string \<times> string" where
  "splitext p =
     (let sepIndex = rfind CHR ''/'' p;
          dotIndex = rfind CHR ''.'' p
      in if dotIndex > sepIndex
         then splitext_loop p (nat dotIndex) (nat (sepIndex + 1))
         else (p, ''''))"

section \<open>The two configuration sets\<close>

definition NO_CACHE_FILES :: "string set" where
  "NO_CACHE_FILES = {''sw.js'', ''manifest.json''}"

definition REVALIDATE_EXTENSIONS :: "string set" where
  "REVALIDATE_EXTENSIONS = {''.js'', ''.css'', ''.html''}"

section \<open>The request handler\<close>

text \<open>
  The handler state as far as \<^verbatim>\<open>end_headers\<close> touches it: the request path, the pending
  header block (\<^verbatim>\<open>_headers_buffer\<close>: the status line and the headers sent so far) and the
  output written so far, one entry per flushed header block.  \<open>send_response_only\<close>,
  \<open>send_header\<close> and \<open>base_end_headers\<close> are the methods of the standard library's
  \<^verbatim>\<open>BaseHTTPRequestHandler\<close> that the subclass calls, for a request of version
  HTTP/1.x: the first two append a line to the pending block, the last one flushes it.
\<close>

datatype line = StatusLine nat | HeaderLine string string

record handler =
  path :: string
  headers_buffer :: "line list"
  wfile :: "line list list"

definition send_response_only :: "nat \<Rightarrow> handler \<Rightarrow> handler" where
  "send_response_only code s = s\<lparr>headers_buffer := headers_buffer s @ [StatusLine code]\<rparr>"

definition send_header :: "string \<Rightarrow> string \<Rightarrow> handler \<Rightarrow> handler" where
  "send_header keyword v s = s\<lparr>headers_buffer := headers_buffer s @ [HeaderLine keyword v]\<rparr>"

definition base_end_headers :: "handler \<Rightarrow> handler" where
  "base_end_headers s = s\<lparr>wfile := wfile s @ [headers_buffer s], headers_buffer := []\<rparr>"

text \<open>Line 46 of the script: the basename of the path without query string and fragment.\<close>

definition request_basename :: "string \<Rightarrow> string" where
  "request_basename p = basename (hd (py_split CHR ''#'' (hd (py_split CHR ''?'' p))))"

text \<open>
  \<^verbatim>\<open>GridDownHandler.end_headers\<close>, for a handler whose request line has been parsed, so
  that \<^verbatim>\<open>self.path\<close> is set: the policy headers are sent first, then the library's
  \<^verbatim>\<open>end_headers\<close> runs.
\<close>

definition end_headers :: "handler \<Rightarrow> handler" where
  "end_headers s =
     (let b = request_basename (path s);
          ext = snd (splitext b)
      in base_end_headers
           (if b \<in> NO_CACHE_FILES then
              send_header ''Expires'' ''0''
                (send_header ''Pragma'' ''no-cache''
                  (send_header ''Cache-Control'' ''no-cache, no-store, must-revalidate'' s))
            else if ext \<in> REVALIDATE_EXTENSIONS then
              send_header ''Cache-Control'' ''no-cache'' s
            else s))"

text \<open>
  The policy headers of a response: the lines that \<open>end_headers\<close> adds to the pending
  header block before the block is flushed.
\<close>

definition emitted :: "handler \<Rightarrow> line list" where
  "emitted s = drop (length (headers_buffer s)) (last (wfile (end_headers s)))"

text \<open>A handler that has just parsed a request for path \<open>p\<close> and has sent nothing yet.\<close>

definition fresh :: "string \<Rightarrow> handler" where
  "fresh p = \<lparr>path = p, headers_buffer = [], wfile = []\<rparr>"

text \<open>
  The Header Policy of the specification: the policy headers as a function of the
  request path alone, read off a handler that has sent nothing yet.
\<close>

definition header_policy :: "string \<Rightarrow> line list" where
  "header_policy p = emitted (fresh p)"

section \<open>Responses of the library\<close>

text \<open>
  The exceptions of this development: \<^verbatim>\<open>AttributeError\<close> for reading an attribute that
  has not been assigned, \<^verbatim>\<open>OverflowError\<close> and \<^verbatim>\<open>OSError\<close> for a socket that cannot
  be bound.
\<close>

datatype pyerror = AttributeError | OverflowError | OSError

text \<open>
  What the library knows of a request when it sends a response: \<^verbatim>\<open>self.path\<close>, which
  \<^verbatim>\<open>parse_request\<close> assigns only after the request line has passed its checks (every
  \<^verbatim>\<open>send_error(400, ...)\<close> for a malformed request line comes before that
  assignment), and \<^verbatim>\<open>self.request_version\<close>, which is \<^verbatim>\<open>HTTP/0.9\<close> for a request
  line without a version.
\<close>

record request =
  req_path :: "string option"
  req_version :: string

text \<open>
  The header block that reaches the client for a response with the given status code and
  the given headers of the library.  \<^verbatim>\<open>send_head\<close> and \<^verbatim>\<open>send_error\<close> call
  \<^verbatim>\<open>send_response\<close>, \<^verbatim>\<open>send_header\<close> for their own headers and then
  \<^verbatim>\<open>self.end_headers()\<close>, which is the method of the subclass.  Its first statement
  (line 46) reads \<^verbatim>\<open>self.path\<close>: without a path it raises \<^verbatim>\<open>AttributeError\<close>, and
  the pending block is never flushed.  For \<^verbatim>\<open>HTTP/0.9\<close> the library's
  \<^verbatim>\<open>send_response_only\<close>, \<^verbatim>\<open>send_header\<close> and \<^verbatim>\<open>end_headers\<close> do nothing, so the
  calls of the subclass are made and no header block is written.  Otherwise the handler
  of the previous section runs.
\<close>

definition finalize_response ::
  "nat \<Rightarrow> (string \<times> string) list \<Rightarrow> request \<Rightarrow> pyerror + line list" where
  "finalize_response code hs r =
     (case req_path r of
        None \<Rightarrow> Inl AttributeError
      | Some p \<Rightarrow>
          if req_version r = ''HTTP/0.9'' then Inr []
          else Inr (last (wfile (end_headers
                 (fold (\<lambda>(k, v). send_header k v) hs (send_response_only code (fresh p)))))))"

section \<open>The access logging filter\<close>

text \<open>
  The positional arguments of \<^verbatim>\<open>log_message\<close> are Python values; the filter only asks
  whether the second one is a \<^verbatim>\<open>str\<close> and how it starts.
\<close>

datatype pyval = PStr string | PInt int | PNone

type_synonym log_entry = "string \<times> pyval list"

definition startswith :: "string \<Rightarrow> string \<Rightarrow> bool" where
  "startswith s pre = (take (length pre) s = pre)"

definition endswith :: "string \<Rightarrow> string \<Rightarrow> bool" where
  "endswith s suf = (drop (length s - length suf) s = suf \<and> length suf \<le> length s)"

text \<open>
  \<^verbatim>\<open>SimpleHTTPRequestHandler.log_message\<close> writes one line to standard error; the model
  records the format and the arguments of the line.
\<close>

definition base_log_message :: "string \<Rightarrow> pyval list \<Rightarrow> log_entry list \<Rightarrow> log_entry list" where
  "base_log_message format args lg = lg @ [(format, args)]"

text \<open>\<^verbatim>\<open>GridDownHandler.log_message\<close>.\<close>

definition log_message :: "string \<Rightarrow> pyval list \<Rightarrow> log_entry list \<Rightarrow> log_entry list" where
  "log_message format args lg =
     (let status = (if length args > 1 then args ! 1 else PStr '''')
      in case status of
           PStr st \<Rightarrow>
             if startswith st ''4'' \<or> startswith st ''5''
             then base_log_message format args lg
             else lg
         | _ \<Rightarrow> lg)"

text \<open>
  Lines 93 to 95 of \<^verbatim>\<open>main\<close>: with \<^verbatim>\<open>--verbose\<close> the class attribute is replaced by the
  library's method.
\<close>

definition installed_log_message ::
  "bool \<Rightarrow> string \<Rightarrow> pyval list \<Rightarrow> log_entry list \<Rightarrow> log_entry list" where
  "installed_log_message verbose_flag =
     (if verbose_flag then base_log_message else log_message)"

text \<open>\<^verbatim>\<open>str(n)\<close> for an integer: its decimal digits.\<close>

definition digit_char :: "nat \<Rightarrow> char" where
  "digit_char d = ''0123456789'' ! d"

fun str_nat :: "nat \<Rightarrow> string" where
  "str_nat n = (if n < 10 then [digit_char n] else str_nat (n div 10) @ [digit_char (n mod 10)])"

declare str_nat.simps [simp del]

definition str_int :: "int \<Rightarrow> string" where
  "str_int i = (if i < 0 then ''-'' @ str_nat (nat (- i)) else str_nat (nat i))"

text \<open>
  The library's \<^verbatim>\<open>log_request\<close>, called by \<^verbatim>\<open>send_response\<close> for every response with
  the numeric status: the per-request log line.  The first argument is the handler's
  \<^verbatim>\<open>log_message\<close> method.
\<close>

definition log_request ::
  "(string \<Rightarrow> pyval list \<Rightarrow> log_entry list \<Rightarrow> log_entry list) \<Rightarrow>
   string \<Rightarrow> nat \<Rightarrow> string \<Rightarrow> log_entry list \<Rightarrow> log_entry list" where
  "log_request lm requestline code sz lg =
     lm ''\"%s\" %s %s'' [PStr requestline, PStr (str_nat code), PStr sz] lg"

section \<open>Startup\<close>

text \<open>
  The parsed command line, and what \<^verbatim>\<open>main\<close> reads from its environment: the home
  directory expansion, the parent directory of the script's directory, which paths are
  regular files, and on which ports the operating system lets the process bind a
  listening socket on all interfaces.
\<close>

record args =
  port :: int
  dir :: "string option"
  verbose :: bool

record env =
  expanduser :: "string \<Rightarrow> string"
  script_root :: string
  isfile :: "string \<Rightarrow> bool"
  can_bind :: "int \<Rightarrow> bool"

text \<open>\<^verbatim>\<open>posixpath.join\<close> of two components.\<close>

definition join :: "string \<Rightarrow> string \<Rightarrow> string" where
  "join a b =
     (if startswith b ''/'' then b
      else if a = '''' \<or> endswith a ''/'' then a @ b
      else a @ ''/'' @ b)"

text \<open>\<^verbatim>\<open>sep.join(xs)\<close>.\<close>

fun str_join :: "string \<Rightarrow> string list \<Rightarrow> string" where
  "str_join sep [] = ''''"
| "str_join sep [x] = x"
| "str_join sep (x # y # ys) = x @ sep @ str_join sep (y # ys)"

text \<open>
  What the process does, in order, and how \<^verbatim>\<open>main\<close> ends: \<open>Exit n\<close> is
  \<^verbatim>\<open>sys.exit(n)\<close>, \<open>Uncaught x\<close> is an exception that leaves \<^verbatim>\<open>main\<close> (the
  interpreter prints the traceback and the process ends with status 1), \<open>Serving\<close> is
  a process that has entered \<^verbatim>\<open>serve_forever\<close>.  \<open>Chdir\<close> and \<open>Bind\<close> stand for the
  completed system calls.
\<close>

datatype action =
    Print string
  | Chdir string
  | RestoreLogMessage
  | Bind string int
  | ServeForever

datatype outcome = Exit nat | Uncaught pyerror | Serving

text \<open>
  The constructor \<^verbatim>\<open>HTTPServer(('0.0.0.0', port), GridDownHandler)\<close> of line 97 binds
  the socket and listens.  \<^verbatim>\<open>socket.bind\<close> raises \<^verbatim>\<open>OverflowError\<close> for a port outside
  0..65535 and \<^verbatim>\<open>OSError\<close> when the operating system refuses the address (a port in
  use, a privileged port); the constructor closes the socket and raises the exception
  again.  Line 97 is outside the \<^verbatim>\<open>try\<close> of \<^verbatim>\<open>main\<close>.
\<close>

definition http_server :: "env \<Rightarrow> int \<Rightarrow> pyerror + unit" where
  "http_server e p =
     (if p < 0 \<or> 65535 < p then Inl OverflowError
      else if \<not> can_bind e p then Inl OSError
      else Inr ())"

definition serve_dir_of :: "env \<Rightarrow> args \<Rightarrow> string" where
  "serve_dir_of e a =
     (case dir a of
        Some d \<Rightarrow> if d \<noteq> '''' then expanduser e d else script_root e
      | None \<Rightarrow> script_root e)"

definition main :: "env \<Rightarrow> args \<Rightarrow> action list \<times> outcome" where
  "main e a =
     (let serve_dir = serve_dir_of e a
      in if \<not> isfile e (join serve_dir ''sw.js'') then
           ([Print (''Error: sw.js not found in '' @ serve_dir),
             Print (''Make sure you'' @ [CHR 0x27] @ ''re serving the GridDown directory.'')],
            Exit 1)
         else
           (let started = [Chdir serve_dir] @ (if verbose a then [RestoreLogMessage] else [])
            in case http_server e (port a) of
                 Inl x \<Rightarrow> (started, Uncaught x)
               | Inr _ \<Rightarrow>
                   (started
                    @ [Bind ''0.0.0.0'' (port a),
                       Print ''GridDown server v1.0'',
                       Print (''Serving: '' @ serve_dir),
                       Print (''URL:     http://localhost:'' @ str_int (port a)),
                       Print '''',
                       Print (''Cache-Control: no-cache, no-store applied to: ''
                              @ str_join '', '' (sorted_list_of_set NO_CACHE_FILES)),
                       Print (''Cache-Control: no-cache (revalidate) applied to: ''
                              @ str_join '', '' (sorted_list_of_set REVALIDATE_EXTENSIONS)),
                       Print ''Press Ctrl+C to stop.'',
                       ServeForever],
                    Serving)))"

section \<open>Basic facts about the primitives\<close>

lemma py_split_nonempty: "py_split c xs \<noteq> []"
  by (induction xs) (auto split: list.splits)

lemma hd_py_split: "hd (py_split c xs) = takeWhile (\<lambda>x. x \<noteq> c) xs"
  by (induction xs) (auto split: list.splits simp: py_split_nonempty)

lemma rfind_lower: "- 1 \<le> rfind c xs"
  by (induction xs) (auto simp: Let_def)

lemma rfind_upper: "rfind c xs < int (length xs)"
  by (induction xs) (auto simp: Let_def)

lemma rfind_neg_iff: "rfind c xs < 0 \<longleftrightarrow> c \<notin> set xs"
  by (induction xs) (auto simp: Let_def)

lemma emitted_cases:
  "emitted s =
     (if request_basename (path s) \<in> NO_CACHE_FILES then
        [HeaderLine ''Cache-Control'' ''no-cache, no-store, must-revalidate'',
         HeaderLine ''Pragma'' ''no-cache'',
         HeaderLine ''Expires'' ''0'']
      else if snd (splitext (request_basename (path s))) \<in> REVALIDATE_EXTENSIONS then
        [HeaderLine ''Cache-Control'' ''no-cache'']
      else [])"
  by (simp add: emitted_def end_headers_def Let_def base_end_headers_def send_header_def)

lemma drop_rfind_notin: "c \<notin> set (drop (nat (rfind c p + 1)) p)"
proof (induction p)
  case Nil
  then show ?case by simp
next
  case (Cons x xs)
  show ?case
  proof (cases "0 \<le> rfind c xs")
    case True
    then have "nat (rfind c (x # xs) + 1) = Suc (nat (rfind c xs + 1))"
      by (simp add: Let_def nat_add_distrib)
    with Cons show ?thesis by simp
  next
    case False
    then have "c \<notin> set xs" using rfind_neg_iff [of c xs] by simp
    with False show ?thesis by (simp add: Let_def)
  qed
qed

lemma basename_no_sep: "CHR ''/'' \<notin> set (basename p)"
  by (simp add: basename_def Let_def drop_rfind_notin)

lemma request_basename_no_sep: "CHR ''/'' \<notin> set (request_basename p)"
  by (simp add: request_basename_def basename_no_sep)

lemma splitext_loop_char:
  "splitext_loop p d i =
     (if \<exists>j. i \<le> j \<and> j < d \<and> take 1 (drop j p) \<noteq> ''.''
      then (take d p, drop d p) else (p, ''''))"
proof (induction p d i rule: splitext_loop.induct)
  case (1 p d i)
  show ?case
  proof (cases "i < d")
    case False
    then show ?thesis by (subst splitext_loop.simps) auto
  next
    case True
    show ?thesis
    proof (cases "take 1 (drop i p) \<noteq> ''.''")
      case True
      with \<open>i < d\<close> show ?thesis by (subst splitext_loop.simps) auto
    next
      case False
      then have eq: "take 1 (drop i p) = ''.''" by simp
      have "(\<exists>j. i \<le> j \<and> j < d \<and> take 1 (drop j p) \<noteq> ''.'')
            = (\<exists>j. i + 1 \<le> j \<and> j < d \<and> take 1 (drop j p) \<noteq> ''.'')"
        using eq by (metis Suc_eq_plus1 Suc_leI le_neq_implies_less add_leD1)
      with 1 True eq show ?thesis by (subst splitext_loop.simps) simp
    qed
  qed
qed

lemma take1_drop: "j < length p \<Longrightarrow> take 1 (drop j p) = [p ! j]"
proof -
  assume "j < length p"
  then have "drop j p = p ! j # drop (Suc j) p"
    by (rule Cons_nth_drop_Suc [symmetric])
  then show ?thesis by simp
qed

lemma nondot_before:
  assumes "d < length b"
  shows "(\<exists>j. 0 \<le> j \<and> j < d \<and> take 1 (drop j b) \<noteq> ''.'')
       = (\<exists>c \<in> set (take d b). c \<noteq> CHR ''.'')"
proof
  assume "\<exists>j. 0 \<le> j \<and> j < d \<and> take 1 (drop j b) \<noteq> ''.''"
  then obtain j where j: "j < d" "take 1 (drop j b) \<noteq> ''.''" by blast
  from j(1) assms have "j < length b" by simp
  with j(2) have "b ! j \<noteq> CHR ''.''" by (simp only: take1_drop) simp
  moreover have "b ! j \<in> set (take d b)"
    using j(1) assms by (metis length_take less_imp_le_nat min.absorb2 nth_mem nth_take)
  ultimately show "\<exists>c \<in> set (take d b). c \<noteq> CHR ''.''" by blast
next
  assume "\<exists>c \<in> set (take d b). c \<noteq> CHR ''.''"
  then obtain c where c: "c \<in> set (take d b)" "c \<noteq> CHR ''.''" by blast
  then obtain j where j: "j < length (take d b)" "take d b ! j = c"
    by (meson in_set_conv_nth)
  then have jd: "j < d" and bj: "b ! j = c" by simp_all
  from jd assms have "j < length b" by simp
  then have "take 1 (drop j b) = [c]" using bj by (simp only: take1_drop)
  with c(2) have "take 1 (drop j b) \<noteq> ''.''" by simp
  with jd show "\<exists>j. 0 \<le> j \<and> j < d \<and> take 1 (drop j b) \<noteq> ''.''" by blast
qed

lemma splitext_pair:
  assumes "CHR ''/'' \<notin> set b"
  shows "splitext b =
     (if \<exists>c \<in> set (take (nat (rfind CHR ''.'' b)) b). c \<noteq> CHR ''.''
      then (take (nat (rfind CHR ''.'' b)) b, drop (nat (rfind CHR ''.'' b)) b)
      else (b, ''''))"
proof -
  let ?d = "rfind CHR ''.'' b"
  have sep: "rfind CHR ''/'' b = - 1"
    using assms rfind_neg_iff [of "CHR ''/''" b] rfind_lower [of "CHR ''/''" b] by simp
  show ?thesis
  proof (cases "0 \<le> ?d")
    case False
    then have "?d = - 1" using rfind_lower [of "CHR ''.''" b] by simp
    then show ?thesis by (simp add: splitext_def sep Let_def)
  next
    case True
    have len: "nat ?d < length b" using rfind_upper [of "CHR ''.''" b] True by simp
    have "splitext b = splitext_loop b (nat ?d) 0"
      using True by (simp add: splitext_def sep)
    also have "\<dots> = (if \<exists>j. 0 \<le> j \<and> j < nat ?d \<and> take 1 (drop j b) \<noteq> ''.''
                       then (take (nat ?d) b, drop (nat ?d) b) else (b, ''''))"
      by (rule splitext_loop_char)
    also have "\<dots> = (if \<exists>c \<in> set (take (nat ?d) b). c \<noteq> CHR ''.''
                       then (take (nat ?d) b, drop (nat ?d) b) else (b, ''''))"
      by (simp only: nondot_before [OF len])
    finally show ?thesis .
  qed
qed

lemma rfind_append_last: "c \<notin> set e \<Longrightarrow> rfind c (r @ c # e) = int (length r)"
proof (induction r)
  case Nil
  then show ?case using rfind_neg_iff [of c e] by (simp add: Let_def)
next
  case (Cons x r)
  then show ?case by (simp add: Let_def)
qed

lemma splitext_root_dot:
  assumes "CHR ''/'' \<notin> set (r @ CHR ''.'' # e)" and "CHR ''.'' \<notin> set e"
  shows "splitext (r @ CHR ''.'' # e) =
           (if \<exists>c \<in> set r. c \<noteq> CHR ''.'' then (r, CHR ''.'' # e)
            else (r @ CHR ''.'' # e, ''''))"
proof -
  have d: "nat (rfind CHR ''.'' (r @ CHR ''.'' # e)) = length r"
    using rfind_append_last [OF assms(2), of r] by simp
  show ?thesis
    by (simp only: splitext_pair [OF assms(1)] d) simp
qed

lemma takeWhile_query:
  "takeWhile (\<lambda>x. x \<noteq> CHR ''#'') (takeWhile (\<lambda>x. x \<noteq> CHR ''?'') (p @ CHR ''?'' # q))
   = takeWhile (\<lambda>x. x \<noteq> CHR ''#'') (takeWhile (\<lambda>x. x \<noteq> CHR ''?'') p)"
  by (induction p) simp_all

lemma takeWhile_fragment:
  "takeWhile (\<lambda>x. x \<noteq> CHR ''#'') (takeWhile (\<lambda>x. x \<noteq> CHR ''?'') (p @ CHR ''#'' # f))
   = takeWhile (\<lambda>x. x \<noteq> CHR ''#'') (takeWhile (\<lambda>x. x \<noteq> CHR ''?'') p)"
  by (induction p) simp_all

lemma strip_query: "hd (py_split CHR ''#'' (hd (py_split CHR ''?'' (p @ CHR ''?'' # q))))
                  = hd (py_split CHR ''#'' (hd (py_split CHR ''?'' p)))"
  by (simp only: hd_py_split takeWhile_query)

lemma strip_fragment: "hd (py_split CHR ''#'' (hd (py_split CHR ''?'' (p @ CHR ''#'' # f))))
                  = hd (py_split CHR ''#'' (hd (py_split CHR ''?'' p)))"
  by (simp only: hd_py_split takeWhile_fragment)

lemma emitted_header_policy: "emitted s = header_policy (path s)"
  by (simp add: header_policy_def emitted_cases fresh_def)

lemma header_policy_cases:
  "header_policy p =
     (if request_basename p \<in> NO_CACHE_FILES then
        [HeaderLine ''Cache-Control'' ''no-cache, no-store, must-revalidate'',
         HeaderLine ''Pragma'' ''no-cache'',
         HeaderLine ''Expires'' ''0'']
      else if snd (splitext (request_basename p)) \<in> REVALIDATE_EXTENSIONS then
        [HeaderLine ''Cache-Control'' ''no-cache'']
      else [])"
  by (simp add: header_policy_def emitted_cases fresh_def)

lemma end_headers_flush:
  "end_headers s = base_end_headers (s\<lparr>headers_buffer := headers_buffer s @ emitted s\<rparr>)"
  by (simp add: emitted_cases end_headers_def Let_def send_header_def)

lemmas eval_path = request_basename_def basename_def splitext_def splitext_loop.simps
  Let_def NO_CACHE_FILES_def REVALIDATE_EXTENSIONS_def

lemma fold_send_header:
  "fold (\<lambda>(k, v). send_header k v) hs s
   = s\<lparr>headers_buffer := headers_buffer s @ map (\<lambda>(k, v). HeaderLine k v) hs\<rparr>"
  by (induction hs arbitrary: s) (auto simp: send_header_def)

lemma str_nat_3digits:
  assumes "100 \<le> n" and "n < 1000"
  shows "str_nat n = [digit_char (n div 100), digit_char (n div 10 mod 10), digit_char (n mod 10)]"
proof -
  have a: "\<not> n < 10" "\<not> n div 10 < 10" "n div 10 div 10 < 10" using assms by auto
  have "n div 10 div 10 = n div 100" by (simp add: div_mult2_eq)
  with a show ?thesis
    by (simp add: str_nat.simps [of n] str_nat.simps [of "n div 10"] str_nat.simps [of "n div 100"])
qed

lemma status_first_digit:
  assumes "100 \<le> n" and "n < 1000"
  shows "startswith (str_nat n) [c] \<longleftrightarrow> digit_char (n div 100) = c"
  using str_nat_3digits [OF assms] by (simp add: startswith_def)

lemma hundreds_23: "200 \<le> (c::nat) \<Longrightarrow> c < 400 \<Longrightarrow> c div 100 = 2 \<or> c div 100 = 3"
  by arith

lemma hundreds_45: "400 \<le> (c::nat) \<Longrightarrow> c < 600 \<Longrightarrow> c div 100 = 4 \<or> c div 100 = 5"
  by arith

lemma digit_char_values:
  "digit_char 2 = CHR ''2''" "digit_char 3 = CHR ''3''"
  "digit_char 4 = CHR ''4''" "digit_char 5 = CHR ''5''"
  by (simp_all add: digit_char_def)

lemma log_message_decision:
  "log_message fmt args lg =
     (if 1 < length args \<and> (\<exists>st. args ! 1 = PStr st \<and> (startswith st ''4'' \<or> startswith st ''5''))
      then lg @ [(fmt, args)] else lg)"
  by (auto simp: log_message_def Let_def base_log_message_def startswith_def split: pyval.splits)

lemma log_request_filtered:
  "log_request log_message rl c sz lg =
     (if startswith (str_nat c) ''4'' \<or> startswith (str_nat c) ''5''
      then lg @ [(''\"%s\" %s %s'', [PStr rl, PStr (str_nat c), PStr sz])] else lg)"
  by (simp add: log_request_def log_message_def base_log_message_def)

section \<open>The header policy\<close>

text \<open>
  Claim C1.  For every request path whose basename, after the query string and the
  fragment are stripped, is in the No-Cache Set, whatever its extension, the policy
  emits exactly the three headers \<open>Cache-Control: no-cache, no-store, must-revalidate\<close>,
  \<open>Pragma: no-cache\<close> and \<open>Expires: 0\<close>, and the single revalidate header
  \<open>Cache-Control: no-cache\<close> is not among them.
\<close>

theorem no_cache_precedence:
  assumes "request_basename p \<in> NO_CACHE_FILES"
  shows "header_policy p =
           [HeaderLine ''Cache-Control'' ''no-cache, no-store, must-revalidate'',
            HeaderLine ''Pragma'' ''no-cache'',
            HeaderLine ''Expires'' ''0'']
         \<and> HeaderLine ''Cache-Control'' ''no-cache'' \<notin> set (header_policy p)"
  using assms by (simp add: header_policy_cases)

text \<open>
  The path \<open>/sw.js\<close>: its basename is in the No-Cache Set and its extension is in the
  Revalidate Extension Set as well, and the no-cache rule wins.
\<close>

theorem no_cache_precedence_witness:
  "request_basename ''/sw.js'' \<in> NO_CACHE_FILES
   \<and> snd (splitext (request_basename ''/sw.js'')) \<in> REVALIDATE_EXTENSIONS
   \<and> header_policy ''/sw.js'' =
           [HeaderLine ''Cache-Control'' ''no-cache, no-store, must-revalidate'',
            HeaderLine ''Pragma'' ''no-cache'',
            HeaderLine ''Expires'' ''0'']
   \<and> HeaderLine ''Cache-Control'' ''no-cache'' \<notin> set (header_policy ''/sw.js'')"
  using no_cache_precedence [of "''/sw.js''"] by (simp add: eval_path)

text \<open>
  Claim C2.  For every request path whose basename is not in the No-Cache Set and whose
  extension is in the Revalidate Extension Set, the policy emits exactly one header,
  \<open>Cache-Control: no-cache\<close>.
\<close>

theorem revalidate_single_header:
  assumes "request_basename p \<notin> NO_CACHE_FILES"
    and "snd (splitext (request_basename p)) \<in> REVALIDATE_EXTENSIONS"
  shows "header_policy p = [HeaderLine ''Cache-Control'' ''no-cache'']"
  using assms by (simp add: header_policy_cases)

theorem revalidate_single_header_witness:
  "request_basename ''/styles.css?x=1'' \<notin> NO_CACHE_FILES
   \<and> snd (splitext (request_basename ''/styles.css?x=1'')) \<in> REVALIDATE_EXTENSIONS
   \<and> header_policy ''/styles.css?x=1'' = [HeaderLine ''Cache-Control'' ''no-cache'']"
  using revalidate_single_header [of "''/styles.css?x=1''"] by (simp add: eval_path)

text \<open>
  Claim C3.  For every request path that matches neither set the policy emits no
  header; the empty basename matches neither set, and the root path \<open>/\<close> has the empty
  basename.
\<close>

theorem neither_set_no_headers:
  "(request_basename p \<notin> NO_CACHE_FILES
      \<and> snd (splitext (request_basename p)) \<notin> REVALIDATE_EXTENSIONS
      \<longrightarrow> header_policy p = [])
   \<and> (request_basename p = '''' \<longrightarrow> header_policy p = [])
   \<and> request_basename ''/'' = ''''"
proof -
  have "snd (splitext '''') = ''''" by (simp add: splitext_def)
  then have "request_basename p = '''' \<longrightarrow> header_policy p = []"
    by (simp add: header_policy_cases NO_CACHE_FILES_def REVALIDATE_EXTENSIONS_def)
  moreover have "request_basename ''/'' = ''''"
    by (simp add: request_basename_def basename_def Let_def)
  ultimately show ?thesis by (simp add: header_policy_cases)
qed

theorem neither_set_no_headers_witness:
  "request_basename ''/logo.png'' \<notin> NO_CACHE_FILES
   \<and> snd (splitext (request_basename ''/logo.png'')) \<notin> REVALIDATE_EXTENSIONS
   \<and> header_policy ''/logo.png'' = []
   \<and> request_basename ''/'' = '''' \<and> header_policy ''/'' = []"
  using neither_set_no_headers [of "''/logo.png''"] neither_set_no_headers [of "''/''"]
  by (simp add: eval_path)

text \<open>
  Claim C4.  Appending \<open>?\<close> and any characters, or \<open>#\<close> and any characters, to any path
  changes neither its basename nor the headers that the policy emits.
\<close>

theorem query_fragment_ignored:
  "header_policy (p @ ''?'' @ q) = header_policy p
   \<and> header_policy (p @ ''#'' @ f) = header_policy p
   \<and> request_basename (p @ ''?'' @ q) = request_basename p
   \<and> request_basename (p @ ''#'' @ f) = request_basename p"
proof -
  have "request_basename (p @ ''?'' @ q) = request_basename p"
    using strip_query [of p q] by (simp add: request_basename_def)
  moreover have "request_basename (p @ ''#'' @ f) = request_basename p"
    using strip_fragment [of p f] by (simp add: request_basename_def)
  ultimately show ?thesis by (simp add: header_policy_cases)
qed

theorem query_fragment_ignored_witness:
  "header_policy ''/sw.js?v=2'' = header_policy ''/sw.js''
   \<and> header_policy ''/sw.js#frag'' = header_policy ''/sw.js''"
  using query_fragment_ignored [of "''/sw.js''" "''v=2''" "''frag''"] by simp

text \<open>
  Claim C5, as amended.  For a basename with several dots, written as a root, a dot and
  a dot-free rest, where the root contains a dot and also a character that is not a
  dot, the extension used for classification is the last dot with the text after it; so
  \<open>/app.min.js\<close> has the extension \<open>.js\<close> and is classified as a
  revalidate-extension file.
\<close>

theorem multi_dot_last_extension:
  assumes "request_basename p = r @ ''.'' @ e"
    and "CHR ''.'' \<notin> set e"
    and "CHR ''.'' \<in> set r"
    and "\<exists>c \<in> set r. c \<noteq> CHR ''.''"
  shows "splitext (request_basename p) = (r, ''.'' @ e)"
proof -
  have sep: "CHR ''/'' \<notin> set (r @ CHR ''.'' # e)"
    using request_basename_no_sep [of p] assms(1) by simp
  have "splitext (r @ CHR ''.'' # e) = (r, CHR ''.'' # e)"
    using splitext_root_dot [OF sep assms(2)] assms(4) by simp
  with assms(1) show ?thesis by simp
qed

text \<open>The path \<open>/app.min.js\<close>.\<close>

theorem multi_dot_last_extension_witness:
  "request_basename ''/app.min.js'' = ''app.min'' @ ''.'' @ ''js''
   \<and> CHR ''.'' \<notin> set ''js''
   \<and> CHR ''.'' \<in> set ''app.min''
   \<and> (\<exists>c \<in> set ''app.min''. c \<noteq> CHR ''.'')
   \<and> splitext (request_basename ''/app.min.js'') = (''app.min'', ''.js'')
   \<and> header_policy ''/app.min.js'' = [HeaderLine ''Cache-Control'' ''no-cache'']"
proof -
  have b: "request_basename ''/app.min.js'' = ''app.min'' @ ''.'' @ ''js''"
    by (simp add: request_basename_def basename_def Let_def)
  have e: "CHR ''.'' \<notin> set ''js''" by simp
  have r: "CHR ''.'' \<in> set ''app.min''" by simp
  have n: "\<exists>c \<in> set ''app.min''. c \<noteq> CHR ''.''" by simp
  have s: "splitext (request_basename ''/app.min.js'') = (''app.min'', ''.'' @ ''js'')"
    by (rule multi_dot_last_extension [OF b e r n])
  have "request_basename ''/app.min.js'' \<notin> NO_CACHE_FILES"
    by (simp add: b NO_CACHE_FILES_def)
  then have "header_policy ''/app.min.js'' = [HeaderLine ''Cache-Control'' ''no-cache'']"
    by (simp add: header_policy_cases s REVALIDATE_EXTENSIONS_def)
  with b e r n s show ?thesis by simp
qed

text \<open>
  The claim without the condition on the root fails: the basename \<open>..js\<close> has two
  dots and the text from its last dot on is \<open>.js\<close>, but the loop of \<open>splitext\<close>
  skips leading dots, so its extension is empty and \<open>/..js\<close> gets no header.
\<close>

theorem multi_dot_counterexample:
  "request_basename ''/..js'' = ''.'' @ ''.'' @ ''js''
   \<and> CHR ''.'' \<notin> set ''js''
   \<and> CHR ''.'' \<in> set ''.''
   \<and> splitext (request_basename ''/..js'') \<noteq> (''.'', ''.'' @ ''js'')
   \<and> snd (splitext (request_basename ''/..js'')) = ''''
   \<and> header_policy ''/..js'' = []"
  by (simp add: header_policy_cases eval_path)

text \<open>
  Claim C10.  A basename whose only dot is its first character has the empty extension,
  so a request for it matches neither set and receives no policy header; \<open>/.js\<close> is
  such a request, although \<open>.js\<close> is in the Revalidate Extension Set.
\<close>

theorem dotfile_no_extension:
  assumes "request_basename p = ''.'' @ r" and "CHR ''.'' \<notin> set r"
  shows "snd (splitext (request_basename p)) = '''' \<and> header_policy p = []"
proof -
  have sep: "CHR ''/'' \<notin> set ([] @ CHR ''.'' # r)"
    using request_basename_no_sep [of p] assms(1) by simp
  have "splitext ([] @ CHR ''.'' # r) = ([] @ CHR ''.'' # r, '''')"
    using splitext_root_dot [OF sep assms(2)] by simp
  with assms(1) have ext: "snd (splitext (request_basename p)) = ''''" by simp
  have "request_basename p \<notin> NO_CACHE_FILES"
    using assms(1) by (simp add: NO_CACHE_FILES_def)
  with ext show ?thesis
    by (simp add: header_policy_cases REVALIDATE_EXTENSIONS_def)
qed

theorem dotfile_no_extension_witness:
  "request_basename ''/.js'' = ''.'' @ ''js'' \<and> CHR ''.'' \<notin> set ''js''
   \<and> ''.'' @ ''js'' \<in> REVALIDATE_EXTENSIONS
   \<and> snd (splitext (request_basename ''/.js'')) = '''' \<and> header_policy ''/.js'' = []"
proof -
  have b: "request_basename ''/.js'' = ''.'' @ ''js''"
    by (simp add: request_basename_def basename_def Let_def)
  have e: "CHR ''.'' \<notin> set ''js''" by simp
  from dotfile_no_extension [OF b e] b e show ?thesis
    by (simp add: REVALIDATE_EXTENSIONS_def)
qed

section \<open>The handler as a state transformer\<close>

text \<open>
  Claim C6.  The headers that \<open>end_headers\<close> adds are a function of the request path
  alone: two handler states with the same path get the same headers whatever else they
  hold, \<open>end_headers\<close> leaves the path as it is, a second invocation adds the same
  headers again, and the only change to the state is that the pending header block,
  extended by the computed headers, is flushed.
\<close>

theorem policy_deterministic:
  "emitted s = header_policy (path s)
   \<and> (path s = path t \<longrightarrow> emitted s = emitted t)
   \<and> path (end_headers s) = path s
   \<and> emitted (end_headers s) = emitted s
   \<and> end_headers s = base_end_headers (s\<lparr>headers_buffer := headers_buffer s @ emitted s\<rparr>)"
proof -
  have p: "path (end_headers s) = path s"
    by (simp add: end_headers_flush base_end_headers_def)
  have "emitted (end_headers s) = header_policy (path (end_headers s))"
    by (rule emitted_header_policy)
  with p have "emitted (end_headers s) = emitted s"
    by (simp add: emitted_header_policy)
  with p show ?thesis
    using end_headers_flush [of s] by (simp add: emitted_header_policy)
qed

theorem policy_deterministic_witness:
  "path (fresh ''/app.js'')
     = path \<lparr>path = ''/app.js'', headers_buffer = [StatusLine 200], wfile = [[StatusLine 404]]\<rparr>
   \<and> emitted (fresh ''/app.js'')
     = emitted \<lparr>path = ''/app.js'', headers_buffer = [StatusLine 200], wfile = [[StatusLine 404]]\<rparr>"
proof -
  let ?t = "\<lparr>path = ''/app.js'', headers_buffer = [StatusLine 200], wfile = [[StatusLine 404]]\<rparr>"
  have p: "path (fresh ''/app.js'') = path ?t"
    by (simp add: fresh_def)
  from policy_deterministic [of "fresh ''/app.js''" ?t]
  have "path (fresh ''/app.js'') = path ?t \<longrightarrow> emitted (fresh ''/app.js'') = emitted ?t"
    by (rule conjunct2 [THEN conjunct1])
  with p show ?thesis by blast
qed

text \<open>
  Claim C9, as amended.  For every response to a request whose path has been parsed and
  whose version is not \<open>HTTP/0.9\<close>, whatever the status code and whatever headers the
  library has sent for it, the header block that is written ends with the policy headers
  of the request path, which depend on the path alone and not on whether the file
  exists; a 404 response for \<open>/missing.js\<close> carries \<open>Cache-Control: no-cache\<close> and a
  404 response for \<open>/sw.js\<close> carries the three no-cache headers.
\<close>

theorem policy_on_every_status:
  assumes "req_path r = Some p" and "req_version r \<noteq> ''HTTP/0.9''"
  shows "finalize_response code hs r
           = Inr ([StatusLine code] @ map (\<lambda>(k, v). HeaderLine k v) hs @ header_policy p)"
proof -
  let ?s = "fold (\<lambda>(k, v). send_header k v) hs (send_response_only code (fresh p))"
  have buf: "headers_buffer ?s = [StatusLine code] @ map (\<lambda>(k, v). HeaderLine k v) hs"
    by (simp add: fold_send_header send_response_only_def fresh_def)
  have pth: "path ?s = p"
    by (simp add: fold_send_header send_response_only_def fresh_def)
  have "last (wfile (end_headers ?s)) = headers_buffer ?s @ emitted ?s"
    by (simp add: end_headers_flush [of ?s] base_end_headers_def)
  also have "\<dots> = [StatusLine code] @ map (\<lambda>(k, v). HeaderLine k v) hs @ header_policy p"
    by (simp only: buf emitted_header_policy pth append_assoc)
  finally show ?thesis
    using assms by (simp add: finalize_response_def)
qed

text \<open>The 404 responses to \<open>GET /missing.js HTTP/1.1\<close> and \<open>GET /sw.js HTTP/1.1\<close>.\<close>

theorem policy_on_every_status_witness:
  "req_path \<lparr>req_path = Some ''/missing.js'', req_version = ''HTTP/1.1''\<rparr> = Some ''/missing.js''
   \<and> req_version \<lparr>req_path = Some ''/missing.js'', req_version = ''HTTP/1.1''\<rparr> \<noteq> ''HTTP/0.9''
   \<and> finalize_response 404 [(''Connection'', ''close'')]
         \<lparr>req_path = Some ''/missing.js'', req_version = ''HTTP/1.1''\<rparr>
       = Inr [StatusLine 404, HeaderLine ''Connection'' ''close'',
              HeaderLine ''Cache-Control'' ''no-cache'']
   \<and> finalize_response 404 [(''Connection'', ''close'')]
         \<lparr>req_path = Some ''/sw.js'', req_version = ''HTTP/1.1''\<rparr>
       = Inr [StatusLine 404, HeaderLine ''Connection'' ''close'',
              HeaderLine ''Cache-Control'' ''no-cache, no-store, must-revalidate'',
              HeaderLine ''Pragma'' ''no-cache'',
              HeaderLine ''Expires'' ''0'']"
proof -
  let ?m = "\<lparr>req_path = Some ''/missing.js'', req_version = ''HTTP/1.1''\<rparr>"
  let ?w = "\<lparr>req_path = Some ''/sw.js'', req_version = ''HTTP/1.1''\<rparr>"
  have pm: "req_path ?m = Some ''/missing.js''" and vm: "req_version ?m \<noteq> ''HTTP/0.9''"
    and pw: "req_path ?w = Some ''/sw.js''" and vw: "req_version ?w \<noteq> ''HTTP/0.9''"
    by simp_all
  have hm: "header_policy ''/missing.js'' = [HeaderLine ''Cache-Control'' ''no-cache'']"
    by (simp add: header_policy_cases eval_path)
  have hw: "header_policy ''/sw.js'' =
       [HeaderLine ''Cache-Control'' ''no-cache, no-store, must-revalidate'',
        HeaderLine ''Pragma'' ''no-cache'',
        HeaderLine ''Expires'' ''0'']"
    by (simp add: header_policy_cases eval_path)
  have m: "finalize_response 404 [(''Connection'', ''close'')] ?m
       = Inr [StatusLine 404, HeaderLine ''Connection'' ''close'',
              HeaderLine ''Cache-Control'' ''no-cache'']"
    using policy_on_every_status [OF pm vm, of 404 "[(''Connection'', ''close'')]"]
    by (simp add: hm)
  have w: "finalize_response 404 [(''Connection'', ''close'')] ?w
       = Inr [StatusLine 404, HeaderLine ''Connection'' ''close'',
              HeaderLine ''Cache-Control'' ''no-cache, no-store, must-revalidate'',
              HeaderLine ''Pragma'' ''no-cache'',
              HeaderLine ''Expires'' ''0'']"
    using policy_on_every_status [OF pw vw, of 404 "[(''Connection'', ''close'')]"]
    by (simp add: hw)
  from pm vm m w show ?thesis by blast
qed

text \<open>
  The claim for every response fails.  The request line \<open>GET /sw.js\<close> has no version,
  so the request is \<open>HTTP/0.9\<close>: the path is \<open>/sw.js\<close>, whose policy is the three
  no-cache headers, and the 200 response carries no header at all.  The request line
  \<open>GET /sw.js FTP/1.1\<close> is answered with status 400 before the path is assigned:
  \<open>end_headers\<close> raises \<open>AttributeError\<close> and no header block is written.
\<close>

theorem policy_on_every_status_counterexample:
  "header_policy ''/sw.js'' =
       [HeaderLine ''Cache-Control'' ''no-cache, no-store, must-revalidate'',
        HeaderLine ''Pragma'' ''no-cache'',
        HeaderLine ''Expires'' ''0'']
   \<and> finalize_response 200 [(''Content-type'', ''text/javascript'')]
         \<lparr>req_path = Some ''/sw.js'', req_version = ''HTTP/0.9''\<rparr> = Inr []
   \<and> finalize_response 400 [(''Connection'', ''close'')]
         \<lparr>req_path = None, req_version = ''HTTP/0.9''\<rparr> = Inl AttributeError"
  by (simp add: finalize_response_def header_policy_cases eval_path)

section \<open>Logging\<close>

text \<open>
  Claim C8.  Without \<open>--verbose\<close> the per-request log line of a response with a status
  from 200 to 399 is suppressed and that of a response with a status from 400 to 599 is
  written; the decision is whether the second argument is a string that starts with
  \<open>4\<close> or \<open>5\<close>.  With \<open>--verbose\<close> every line is written.
\<close>

theorem logging_filter:
  "(200 \<le> c \<and> c < 400 \<longrightarrow>
      log_request (installed_log_message False) rl c sz lg = lg)
   \<and> (400 \<le> c \<and> c < 600 \<longrightarrow>
      log_request (installed_log_message False) rl c sz lg
        = lg @ [(''\"%s\" %s %s'', [PStr rl, PStr (str_nat c), PStr sz])])
   \<and> installed_log_message False fmt args lg =
       (if 1 < length args
           \<and> (\<exists>st. args ! 1 = PStr st \<and> (startswith st ''4'' \<or> startswith st ''5''))
        then lg @ [(fmt, args)] else lg)
   \<and> installed_log_message True fmt args lg = lg @ [(fmt, args)]
   \<and> log_request (installed_log_message True) rl c sz lg
        = lg @ [(''\"%s\" %s %s'', [PStr rl, PStr (str_nat c), PStr sz])]"
proof -
  have ok: "log_request (installed_log_message False) rl c sz lg = lg"
    if "200 \<le> c \<and> c < 400"
  proof -
    from that have r: "100 \<le> c" "c < 1000" by simp_all
    from that have "c div 100 = 2 \<or> c div 100 = 3" by (simp add: hundreds_23)
    then have "\<not> startswith (str_nat c) ''4''" "\<not> startswith (str_nat c) ''5''"
      by (auto simp: status_first_digit [OF r] digit_char_values)
    then show ?thesis
      by (simp add: installed_log_message_def log_request_filtered)
  qed
  have err: "log_request (installed_log_message False) rl c sz lg
        = lg @ [(''\"%s\" %s %s'', [PStr rl, PStr (str_nat c), PStr sz])]"
    if "400 \<le> c \<and> c < 600"
  proof -
    from that have r: "100 \<le> c" "c < 1000" by simp_all
    from that have "c div 100 = 4 \<or> c div 100 = 5" by (simp add: hundreds_45)
    then have "startswith (str_nat c) ''4'' \<or> startswith (str_nat c) ''5''"
      by (auto simp: status_first_digit [OF r] digit_char_values)
    then show ?thesis
      by (simp add: installed_log_message_def log_request_filtered)
  qed
  have dec: "installed_log_message False fmt args lg =
       (if 1 < length args
           \<and> (\<exists>st. args ! 1 = PStr st \<and> (startswith st ''4'' \<or> startswith st ''5''))
        then lg @ [(fmt, args)] else lg)"
    by (simp only: installed_log_message_def if_False log_message_decision)
  have verb: "installed_log_message True fmt args lg = lg @ [(fmt, args)]"
    by (simp add: installed_log_message_def base_log_message_def)
  have verb_req: "log_request (installed_log_message True) rl c sz lg
        = lg @ [(''\"%s\" %s %s'', [PStr rl, PStr (str_nat c), PStr sz])]"
    by (simp add: installed_log_message_def base_log_message_def log_request_def)
  from ok err dec verb verb_req show ?thesis by blast
qed

theorem logging_filter_witness:
  "(200::nat) \<le> 200 \<and> (200::nat) < 400
   \<and> log_request (installed_log_message False) ''GET / HTTP/1.1'' 200 ''-'' [] = []
   \<and> (400::nat) \<le> 404 \<and> (404::nat) < 600
   \<and> log_request (installed_log_message False) ''GET /x HTTP/1.1'' 404 ''-'' []
        = [(''\"%s\" %s %s'', [PStr ''GET /x HTTP/1.1'', PStr ''404'', PStr ''-''])]
   \<and> log_request (installed_log_message True) ''GET / HTTP/1.1'' 200 ''-'' []
        = [(''\"%s\" %s %s'', [PStr ''GET / HTTP/1.1'', PStr ''200'', PStr ''-''])]"
proof -
  have s: "str_nat 404 = ''404''" "str_nat 200 = ''200''"
    by (simp_all add: str_nat.simps digit_char_def)
  from logging_filter [of 200 "''GET / HTTP/1.1''" "''-''" "[]"]
  have a: "log_request (installed_log_message False) ''GET / HTTP/1.1'' 200 ''-'' [] = []"
    and c: "log_request (installed_log_message True) ''GET / HTTP/1.1'' 200 ''-'' []
        = [(''\"%s\" %s %s'', [PStr ''GET / HTTP/1.1'', PStr ''200'', PStr ''-''])]"
    by (simp_all add: s)
  from logging_filter [of 404 "''GET /x HTTP/1.1''" "''-''" "[]"]
  have b: "log_request (installed_log_message False) ''GET /x HTTP/1.1'' 404 ''-'' []
        = [(''\"%s\" %s %s'', [PStr ''GET /x HTTP/1.1'', PStr ''404'', PStr ''-''])]"
    by (simp add: s)
  from a b c show ?thesis by simp
qed

section \<open>Startup validation\<close>

text \<open>
  Claim C7.  If \<open>sw.js\<close> is not a file directly inside the resolved serve directory,
  \<open>main\<close> prints an error that names \<open>sw.js\<close> and exits with status 1, and no socket
  has been bound.  If it is, startup proceeds: \<open>main\<close> does not call \<open>sys.exit\<close> and
  prints no error, it changes to the directory and constructs the server; when the
  socket can be bound it prints the banner and enters the serve loop, and when it
  cannot, the exception of the constructor ends the process with no socket bound.
\<close>

theorem startup_marker_check:
  "(\<not> isfile e (join (serve_dir_of e a) ''sw.js'') \<longrightarrow>
      main e a =
        ([Print (''Error: sw.js not found in '' @ serve_dir_of e a),
          Print (''Make sure you'' @ [CHR 0x27] @ ''re serving the GridDown directory.'')],
         Exit 1)
      \<and> (\<forall>h n. Bind h n \<notin> set (fst (main e a))))
   \<and> (isfile e (join (serve_dir_of e a) ''sw.js'') \<longrightarrow>
      (\<forall>n. snd (main e a) \<noteq> Exit n)
      \<and> Print (''Error: sw.js not found in '' @ serve_dir_of e a) \<notin> set (fst (main e a))
      \<and> hd (fst (main e a)) = Chdir (serve_dir_of e a)
      \<and> (0 \<le> port a \<and> port a \<le> 65535 \<and> can_bind e (port a) \<longrightarrow>
            Bind ''0.0.0.0'' (port a) \<in> set (fst (main e a))
            \<and> last (fst (main e a)) = ServeForever
            \<and> snd (main e a) = Serving)
      \<and> (\<not> (0 \<le> port a \<and> port a \<le> 65535 \<and> can_bind e (port a)) \<longrightarrow>
            (\<forall>h n. Bind h n \<notin> set (fst (main e a)))
            \<and> snd (main e a)
                = Uncaught (if port a < 0 \<or> 65535 < port a then OverflowError else OSError)))
   \<and> join d ''sw.js'' = (if d = '''' \<or> endswith d ''/'' then d @ ''sw.js'' else d @ ''/sw.js'')"
proof -
  let ?d = "serve_dir_of e a"
  let ?err = "[Print (''Error: sw.js not found in '' @ ?d),
               Print (''Make sure you'' @ [CHR 0x27] @ ''re serving the GridDown directory.'')]"
  let ?ok = "0 \<le> port a \<and> port a \<le> 65535 \<and> can_bind e (port a)"
  have missing: "main e a = (?err, Exit 1)" if "\<not> isfile e (join ?d ''sw.js'')"
    using that by (simp add: main_def Let_def)
  have unbound: "\<forall>h n. Bind h n \<notin> set (fst (main e a))" if "\<not> isfile e (join ?d ''sw.js'')"
    using missing [OF that] by simp
  have bound:
    "Bind ''0.0.0.0'' (port a) \<in> set (fst (main e a))
     \<and> last (fst (main e a)) = ServeForever \<and> snd (main e a) = Serving
     \<and> hd (fst (main e a)) = Chdir ?d
     \<and> Print (''Error: sw.js not found in '' @ ?d) \<notin> set (fst (main e a))"
    if "isfile e (join ?d ''sw.js'')" and "?ok"
    using that by (simp add: main_def Let_def http_server_def)
  have refused:
    "(\<forall>h n. Bind h n \<notin> set (fst (main e a)))
     \<and> snd (main e a)
         = Uncaught (if port a < 0 \<or> 65535 < port a then OverflowError else OSError)
     \<and> (\<forall>m. Print m \<notin> set (fst (main e a)))
     \<and> hd (fst (main e a)) = Chdir ?d"
    if "isfile e (join ?d ''sw.js'')" and "\<not> ?ok"
    using that by (auto simp: main_def Let_def http_server_def)
  have no_exit: "\<forall>n. snd (main e a) \<noteq> Exit n" if "isfile e (join ?d ''sw.js'')"
    using bound [OF that] refused [OF that] by (cases "?ok") auto
  have quiet: "Print (''Error: sw.js not found in '' @ ?d) \<notin> set (fst (main e a))"
    if "isfile e (join ?d ''sw.js'')"
    using bound [OF that] refused [OF that] by (cases "?ok") auto
  have first: "hd (fst (main e a)) = Chdir ?d" if "isfile e (join ?d ''sw.js'')"
    using bound [OF that] refused [OF that] by (cases "?ok") auto
  have marker: "join d ''sw.js'' = (if d = '''' \<or> endswith d ''/'' then d @ ''sw.js'' else d @ ''/sw.js'')"
    by (simp add: join_def startswith_def)
  show ?thesis
  proof (intro conjI impI)
    assume m: "\<not> isfile e (join ?d ''sw.js'')"
    show "main e a = (?err, Exit 1)" by (rule missing [OF m])
    show "\<forall>h n. Bind h n \<notin> set (fst (main e a))" by (rule unbound [OF m])
  next
    assume p: "isfile e (join ?d ''sw.js'')"
    show "\<forall>n. snd (main e a) \<noteq> Exit n" by (rule no_exit [OF p])
    show "Print (''Error: sw.js not found in '' @ ?d) \<notin> set (fst (main e a))"
      by (rule quiet [OF p])
    show "hd (fst (main e a)) = Chdir ?d" by (rule first [OF p])
    {
      assume ok: "?ok"
      from bound [OF p ok]
      show "Bind ''0.0.0.0'' (port a) \<in> set (fst (main e a))"
        and "last (fst (main e a)) = ServeForever"
        and "snd (main e a) = Serving"
        by simp_all
    }
    {
      assume bad: "\<not> ?ok"
      from refused [OF p bad]
      show "\<forall>h n. Bind h n \<notin> set (fst (main e a))"
        and "snd (main e a)
              = Uncaught (if port a < 0 \<or> 65535 < port a then OverflowError else OSError)"
        by simp_all
    }
  next
    show "join d ''sw.js'' = (if d = '''' \<or> endswith d ''/'' then d @ ''sw.js'' else d @ ''/sw.js'')"
      by (rule marker)
  qed
qed

text \<open>
  A serve directory without the marker, one with the marker and port 8080 free, and one
  with the marker and port 70000.
\<close>

theorem startup_marker_check_witness:
  "\<not> isfile \<lparr>expanduser = (\<lambda>d. d), script_root = ''/opt'',
              isfile = (\<lambda>f. f = ''/srv/griddown/sw.js''), can_bind = (\<lambda>n. True)\<rparr>
       (join ''/opt'' ''sw.js'')
   \<and> main \<lparr>expanduser = (\<lambda>d. d), script_root = ''/opt'',
            isfile = (\<lambda>f. f = ''/srv/griddown/sw.js''), can_bind = (\<lambda>n. True)\<rparr>
          \<lparr>port = 8080, dir = None, verbose = False\<rparr>
       = ([Print ''Error: sw.js not found in /opt'',
           Print (''Make sure you'' @ [CHR 0x27] @ ''re serving the GridDown directory.'')],
          Exit 1)
   \<and> isfile \<lparr>expanduser = (\<lambda>d. d), script_root = ''/opt'',
              isfile = (\<lambda>f. f = ''/srv/griddown/sw.js''), can_bind = (\<lambda>n. True)\<rparr>
       (join ''/srv/griddown'' ''sw.js'')
   \<and> snd (main \<lparr>expanduser = (\<lambda>d. d), script_root = ''/opt'',
                 isfile = (\<lambda>f. f = ''/srv/griddown/sw.js''), can_bind = (\<lambda>n. True)\<rparr>
               \<lparr>port = 8080, dir = Some ''/srv/griddown'', verbose = False\<rparr>) = Serving
   \<and> Bind ''0.0.0.0'' 8080
       \<in> set (fst (main \<lparr>expanduser = (\<lambda>d. d), script_root = ''/opt'',
                 isfile = (\<lambda>f. f = ''/srv/griddown/sw.js''), can_bind = (\<lambda>n. True)\<rparr>
               \<lparr>port = 8080, dir = Some ''/srv/griddown'', verbose = False\<rparr>))
   \<and> snd (main \<lparr>expanduser = (\<lambda>d. d), script_root = ''/opt'',
                 isfile = (\<lambda>f. f = ''/srv/griddown/sw.js''), can_bind = (\<lambda>n. True)\<rparr>
               \<lparr>port = 70000, dir = Some ''/srv/griddown'', verbose = False\<rparr>)
       = Uncaught OverflowError"
proof -
  let ?e = "\<lparr>expanduser = (\<lambda>d. d), script_root = ''/opt'',
            isfile = (\<lambda>f. f = ''/srv/griddown/sw.js''), can_bind = (\<lambda>n. True)\<rparr>"
  let ?a = "\<lparr>port = 8080, dir = None, verbose = False\<rparr>"
  let ?b = "\<lparr>port = 8080, dir = Some ''/srv/griddown'', verbose = False\<rparr>"
  let ?c = "\<lparr>port = 70000, dir = Some ''/srv/griddown'', verbose = False\<rparr>"
  have da: "serve_dir_of ?e ?a = ''/opt''" and db: "serve_dir_of ?e ?b = ''/srv/griddown''"
    and dc: "serve_dir_of ?e ?c = ''/srv/griddown''"
    by (simp_all add: serve_dir_of_def)
  have ja: "join ''/opt'' ''sw.js'' = ''/opt/sw.js''"
    and jb: "join ''/srv/griddown'' ''sw.js'' = ''/srv/griddown/sw.js''"
    by (simp_all add: join_def startswith_def endswith_def)
  from startup_marker_check [of ?e ?a] da ja
  have a: "main ?e ?a = ([Print ''Error: sw.js not found in /opt'',
           Print (''Make sure you'' @ [CHR 0x27] @ ''re serving the GridDown directory.'')],
          Exit 1)"
    by simp
  from startup_marker_check [of ?e ?b] db jb
  have b: "snd (main ?e ?b) = Serving" "Bind ''0.0.0.0'' 8080 \<in> set (fst (main ?e ?b))"
    by simp_all
  from startup_marker_check [of ?e ?c] dc jb
  have c: "snd (main ?e ?c) = Uncaught OverflowError"
    by simp
  from a b c ja jb show ?thesis by simp
qed

end
